theory Spec2Isabelle
  imports Complex_Main "HOL-Library.Sublist"
begin

section \<open>Python values shared by the modules\<close>

text \<open>
  Python strings are modelled as \<^typ>\<open>string\<close>, Python's unbounded integers as
  \<^typ>\<open>int\<close>, and an index produced by \<open>enumerate\<close> as \<^typ>\<open>nat\<close>. A call
  that may raise returns \<open>exn + 'a\<close>, with \<open>Inl\<close> the raised exception; an exception
  carries its message (what \<open>str(e)\<close> gives). The exception chaining of
  \<open>raise ... from e\<close> (the \<open>__cause__\<close> attribute) is not modelled.
\<close>

datatype exn =
    ContextLengthException string
  | ValueError string
  | OtherException string

text \<open>The decimal text an f-string gives for an integer (\<open>f"{n}"\<close>).\<close>

fun str_nat :: "nat \<Rightarrow> string" where
  "str_nat n =
     (if n < 10 then [char_of (48 + n)]
      else str_nat (n div 10) @ [char_of (48 + n mod 10)])"

declare str_nat.simps [simp del]

definition str_int :: "int \<Rightarrow> string" where
  "str_int n = (if n < 0 then CHR ''-'' # str_nat (nat (- n)) else str_nat (nat n))"

text \<open>
  The collaborator \<open>OpenAIService\<close>: only its attribute \<open>model\<close> and its methods
  \<open>get_response\<close> and \<open>get_token_count\<close> are used by the functions below. The
  attribute \<open>model\<close> is read by the \<open>logger.debug\<close> call that opens each function and
  by nothing else; logging is not modelled.
\<close>

record openai_service =
  model :: string
  get_response :: "string \<Rightarrow> exn + string"
  get_token_count :: "string \<Rightarrow> int"


section \<open>\<open>tonic_validate/utils/llm_calls.py\<close>\<close>

subsection \<open>The numbered context blocks\<close>

text \<open>The f-string \<open>f"\n\nCONTEXT {i}:\n{context}\nEND OF CONTEXT {i}"\<close>.\<close>

definition context_block :: "nat \<Rightarrow> string \<Rightarrow> string" where
  "context_block i context =
     ''\<newline>\<newline>CONTEXT '' @ str_nat i @ '':\<newline>'' @ context
       @ ''\<newline>END OF CONTEXT '' @ str_nat i"

text \<open>
  The loop \<open>for i, context in enumerate(context_list): main_message += ...\<close>, started
  on the message built so far.
\<close>

definition append_contexts :: "string list \<Rightarrow> string \<Rightarrow> string" where
  "append_contexts context_list main_message =
     fold (\<lambda>(i, context) main_message. main_message @ context_block i context)
       (enumerate 0 context_list) main_message"

text \<open>
  The loop \<open>context_tokens = 0; for context in context_list: context_tokens += ...\<close>.
\<close>

definition sum_context_tokens :: "openai_service \<Rightarrow> string list \<Rightarrow> int" where
  "sum_context_tokens openai_service context_list =
     fold (\<lambda>context context_tokens. context_tokens + get_token_count openai_service context)
       context_list 0"

subsection \<open>The token breakdown of the recovery path\<close>

text \<open>
  Every \<open>except ContextLengthException as e\<close> block computes one token count per
  reported input, the total of the whole message and the base prompt count, and raises
  a new \<open>ContextLengthException\<close> whose message lists them. The counts are kept in a
  record, each reported count with the label its line of the message starts with; the
  message is rendered from the record by \<open>token_count_message\<close>.
\<close>

record token_counts =
  segment_tokens :: "(string \<times> int) list"
  base_prompt_tokens :: int
  total_tokens :: int

definition token_count_message :: "string \<Rightarrow> string \<Rightarrow> token_counts \<Rightarrow> string" where
  "token_count_message prompt_name e counts =
     prompt_name
       @ '' prompt too long to score item. OpenAI returned the following error message''
       @ ''\<newline>----------''
       @ ''\<newline>'' @ e
       @ ''\<newline>----------''
       @ ''\<newline>See details below for breakdown of token counts''
       @ concat (map (\<lambda>(label, n). ''\<newline>'' @ label @ '' tokens: '' @ str_int n)
           (segment_tokens counts))
       @ ''\<newline>Base prompt tokens: '' @ str_int (base_prompt_tokens counts)
       @ ''\<newline>Total tokens: '' @ str_int (total_tokens counts)"

text \<open>
  The \<open>try\<close> statement shared by the seven functions: the response is returned, a
  \<open>ContextLengthException\<close> is replaced by the one with the breakdown, and any other
  exception propagates unchanged.
\<close>

definition call_with_breakdown ::
  "openai_service \<Rightarrow> string \<Rightarrow> string \<Rightarrow> token_counts \<Rightarrow> exn + string" where
  "call_with_breakdown openai_service main_message prompt_name counts =
     (case get_response openai_service main_message of
        Inr response_message \<Rightarrow> Inr response_message
      | Inl (ContextLengthException e) \<Rightarrow>
          Inl (ContextLengthException (token_count_message prompt_name e counts))
      | Inl other \<Rightarrow> Inl other)"

subsection \<open>\<open>similarity_score_call\<close>\<close>

definition similarity_score_instructions :: string where
  "similarity_score_instructions =
     ''Considering the reference answer and the new answer to the following ''
     @ ''question, on a scale of 0 to 5, where 5 means the same and 0 means not at all ''
     @ ''similar, how similar in meaning is the new answer to the reference answer? ''
     @ ''Respond with just a number and no additional text.''"

definition similarity_score_message :: "string \<Rightarrow> string \<Rightarrow> string \<Rightarrow> string" where
  "similarity_score_message question reference_answer llm_answer =
     (let main_message = similarity_score_instructions;
          main_message = main_message @ (''\<newline>QUESTION: '' @ question @ ''\<newline>'');
          main_message = main_message @ (''REFERENCE ANSWER: '' @ reference_answer @ ''\<newline>'');
          main_message = main_message @ (''NEW ANSWER: '' @ llm_answer @ ''\<newline>'')
      in main_message)"

definition similarity_score_counts ::
  "string \<Rightarrow> string \<Rightarrow> string \<Rightarrow> openai_service \<Rightarrow> token_counts" where
  "similarity_score_counts question reference_answer llm_answer openai_service =
     (let main_message = similarity_score_message question reference_answer llm_answer;
          question_tokens = get_token_count openai_service question;
          reference_answer_tokens = get_token_count openai_service reference_answer;
          llm_answer_tokens = get_token_count openai_service llm_answer;
          total_tokens = get_token_count openai_service main_message;
          base_prompt_tokens =
            total_tokens - question_tokens - reference_answer_tokens - llm_answer_tokens
      in \<lparr>segment_tokens =
            [(''Question'', question_tokens),
             (''Reference answer'', reference_answer_tokens),
             (''New answer'', llm_answer_tokens)],
          base_prompt_tokens = base_prompt_tokens,
          total_tokens = total_tokens\<rparr>)"

definition similarity_score_call ::
  "string \<Rightarrow> string \<Rightarrow> string \<Rightarrow> openai_service \<Rightarrow> exn + string" where
  "similarity_score_call question reference_answer llm_answer openai_service =
     call_with_breakdown openai_service
       (similarity_score_message question reference_answer llm_answer)
       ''Similarity score''
       (similarity_score_counts question reference_answer llm_answer openai_service)"

subsection \<open>\<open>answer_consistent_with_context_call\<close>\<close>

definition answer_consistent_with_context_instructions :: string where
  "answer_consistent_with_context_instructions =
     ''Consider the following list of context and answer. The answer answers a ''
     @ ''user's query using the context. Determine whether the answer contains any ''
     @ ''information that cannot be attributed to the information in the list of ''
     @ ''context. If the answer contains information that cannot be attributed to the ''
     @ ''context then respond with false. Otherwise respond with true. Respond with ''
     @ ''either true or false and no additional text.''"

definition answer_consistent_with_context_message :: "string \<Rightarrow> string list \<Rightarrow> string" where
  "answer_consistent_with_context_message answer context_list =
     (let main_message = answer_consistent_with_context_instructions;
          main_message = append_contexts context_list main_message;
          main_message = main_message @ (''\<newline>\<newline>ANSWER: '' @ answer)
      in main_message)"

definition answer_consistent_with_context_counts ::
  "string \<Rightarrow> string list \<Rightarrow> openai_service \<Rightarrow> token_counts" where
  "answer_consistent_with_context_counts answer context_list openai_service =
     (let main_message = answer_consistent_with_context_message answer context_list;
          answer_tokens = get_token_count openai_service answer;
          context_tokens = sum_context_tokens openai_service context_list;
          total_tokens = get_token_count openai_service main_message;
          base_prompt_tokens = total_tokens - context_tokens - answer_tokens
      in \<lparr>segment_tokens = [(''Answer'', answer_tokens), (''Context'', context_tokens)],
          base_prompt_tokens = base_prompt_tokens,
          total_tokens = total_tokens\<rparr>)"

definition answer_consistent_with_context_call ::
  "string \<Rightarrow> string list \<Rightarrow> openai_service \<Rightarrow> exn + string" where
  "answer_consistent_with_context_call answer context_list openai_service =
     call_with_breakdown openai_service
       (answer_consistent_with_context_message answer context_list)
       ''Consistency''
       (answer_consistent_with_context_counts answer context_list openai_service)"

subsection \<open>\<open>context_relevancy_call\<close>\<close>

definition context_relevancy_instructions :: string where
  "context_relevancy_instructions =
     ''Considering the following question and context, determine whether the context ''
     @ ''is relevant for answering the question. If the context is relevant for ''
     @ ''answering the question, respond with true. If the context is not relevant for ''
     @ ''answering the question, respond with false. Respond with either true or false ''
     @ ''and no additional text.''"

definition context_relevancy_message :: "string \<Rightarrow> string \<Rightarrow> string" where
  "context_relevancy_message question context =
     (let main_message = context_relevancy_instructions;
          main_message = main_message @ (''\<newline>QUESTION: '' @ question @ ''\<newline>'');
          main_message = main_message @ (''CONTEXT: '' @ context @ ''\<newline>'')
      in main_message)"

definition context_relevancy_counts ::
  "string \<Rightarrow> string \<Rightarrow> openai_service \<Rightarrow> token_counts" where
  "context_relevancy_counts question context openai_service =
     (let main_message = context_relevancy_message question context;
          question_tokens = get_token_count openai_service question;
          context_tokens = get_token_count openai_service context;
          total_tokens = get_token_count openai_service main_message;
          base_prompt_tokens = total_tokens - question_tokens - context_tokens
      in \<lparr>segment_tokens = [(''Question'', question_tokens), (''Context'', context_tokens)],
          base_prompt_tokens = base_prompt_tokens,
          total_tokens = total_tokens\<rparr>)"

definition context_relevancy_call ::
  "string \<Rightarrow> string \<Rightarrow> openai_service \<Rightarrow> exn + string" where
  "context_relevancy_call question context openai_service =
     call_with_breakdown openai_service
       (context_relevancy_message question context)
       ''Relevance''
       (context_relevancy_counts question context openai_service)"

subsection \<open>\<open>answer_contains_context_call\<close>\<close>

definition answer_contains_context_instructions :: string where
  "answer_contains_context_instructions =
     ''Considering the following answer and context, determine whether the answer ''
     @ ''contains information derived from the context. If the answer contains ''
     @ ''information derived from the context, respond with true. If the answer does ''
     @ ''not contain information derived from the context, respond with false. ''
     @ ''Respond with either true or false and no additional text.''"

definition answer_contains_context_message :: "string \<Rightarrow> string \<Rightarrow> string" where
  "answer_contains_context_message answer context =
     (let main_message = answer_contains_context_instructions;
          main_message = main_message @ (''\<newline>ANSWER: '' @ answer @ ''\<newline>'');
          main_message = main_message @ (''CONTEXT: '' @ context @ ''\<newline>'')
      in main_message)"

definition answer_contains_context_counts ::
  "string \<Rightarrow> string \<Rightarrow> openai_service \<Rightarrow> token_counts" where
  "answer_contains_context_counts answer context openai_service =
     (let main_message = answer_contains_context_message answer context;
          answer_tokens = get_token_count openai_service answer;
          context_tokens = get_token_count openai_service context;
          total_tokens = get_token_count openai_service main_message;
          base_prompt_tokens = total_tokens - answer_tokens - context_tokens
      in \<lparr>segment_tokens = [(''Answer'', answer_tokens), (''Context'', context_tokens)],
          base_prompt_tokens = base_prompt_tokens,
          total_tokens = total_tokens\<rparr>)"

definition answer_contains_context_call ::
  "string \<Rightarrow> string \<Rightarrow> openai_service \<Rightarrow> exn + string" where
  "answer_contains_context_call answer context openai_service =
     call_with_breakdown openai_service
       (answer_contains_context_message answer context)
       ''Contains context''
       (answer_contains_context_counts answer context openai_service)"

subsection \<open>\<open>main_points_call\<close>\<close>

definition main_points_instructions :: string where
  "main_points_instructions =
     ''Using a bulleted list in markdown (so each bullet is a '' @ [CHR 0x27] @ ''*''
     @ [CHR 0x27] @ ''), write down the ''
     @ ''main points in the following answer to a user's query. Respond with the ''
     @ ''bulleted list and no additional text. Only use a single '' @ [CHR 0x27] @ ''*''
     @ [CHR 0x27] @ '' for each bullet ''
     @ ''and do not use a '' @ [CHR 0x27] @ ''*'' @ [CHR 0x27]
     @ '' anywhere in your response except for the bullets.''"

definition main_points_message :: "string \<Rightarrow> string" where
  "main_points_message answer =
     (let main_message = main_points_instructions;
          main_message = main_message @ (''\<newline>ANSWER: '' @ answer)
      in main_message)"

definition main_points_counts :: "string \<Rightarrow> openai_service \<Rightarrow> token_counts" where
  "main_points_counts answer openai_service =
     (let main_message = main_points_message answer;
          answer_tokens = get_token_count openai_service answer;
          total_tokens = get_token_count openai_service main_message;
          base_prompt_tokens = total_tokens - answer_tokens
      in \<lparr>segment_tokens = [(''Answer'', answer_tokens)],
          base_prompt_tokens = base_prompt_tokens,
          total_tokens = total_tokens\<rparr>)"

definition main_points_call :: "string \<Rightarrow> openai_service \<Rightarrow> exn + string" where
  "main_points_call answer openai_service =
     call_with_breakdown openai_service
       (main_points_message answer)
       ''Main points''
       (main_points_counts answer openai_service)"

subsection \<open>\<open>statement_derived_from_context_call\<close>\<close>

definition statement_derived_from_context_instructions :: string where
  "statement_derived_from_context_instructions =
     ''Considering the following statement and then list of context, determine ''
     @ ''whether the statement can be derived from the context. If the statement can ''
     @ ''be derived from the context response with true. Otherwise response with ''
     @ ''false. Respond with either true or false and no additional text.''"

definition statement_derived_from_context_message :: "string \<Rightarrow> string list \<Rightarrow> string" where
  "statement_derived_from_context_message statement context_list =
     (let main_message = statement_derived_from_context_instructions;
          main_message = main_message
            @ (''\<newline>\<newline>STATEMENT:\<newline>'' @ statement @ ''\<newline>END OF STATEMENT'');
          main_message = append_contexts context_list main_message
      in main_message)"

definition statement_derived_from_context_counts ::
  "string \<Rightarrow> string list \<Rightarrow> openai_service \<Rightarrow> token_counts" where
  "statement_derived_from_context_counts statement context_list openai_service =
     (let main_message = statement_derived_from_context_message statement context_list;
          statement_tokens = get_token_count openai_service statement;
          context_tokens = sum_context_tokens openai_service context_list;
          total_tokens = get_token_count openai_service main_message;
          base_prompt_tokens = total_tokens - context_tokens - statement_tokens
      in \<lparr>segment_tokens = [(''Statement'', statement_tokens), (''Context'', context_tokens)],
          base_prompt_tokens = base_prompt_tokens,
          total_tokens = total_tokens\<rparr>)"

definition statement_derived_from_context_call ::
  "string \<Rightarrow> string list \<Rightarrow> openai_service \<Rightarrow> exn + string" where
  "statement_derived_from_context_call statement context_list openai_service =
     call_with_breakdown openai_service
       (statement_derived_from_context_message statement context_list)
       ''Derived from context''
       (statement_derived_from_context_counts statement context_list openai_service)"

subsection \<open>\<open>contains_duplicate_information\<close>\<close>

definition contains_duplicate_information_instructions :: string where
  "contains_duplicate_information_instructions =
     ''Considering the following statement, determine whether the statement contains ''
     @ ''duplicate information. If the statement contains duplicate information, respond ''
     @ ''with '' @ [CHR 0x27] @ ''true'' @ [CHR 0x27]
     @ ''. If the statement does not contain duplicate information, respond ''
     @ ''with '' @ [CHR 0x27] @ ''false'' @ [CHR 0x27] @ ''. Respond with either ''
     @ [CHR 0x27] @ ''true'' @ [CHR 0x27] @ '' or '' @ [CHR 0x27] @ ''false'' @ [CHR 0x27]
     @ '' and no additional text.''"

definition contains_duplicate_information_message :: "string \<Rightarrow> string" where
  "contains_duplicate_information_message statement =
     (let main_message = contains_duplicate_information_instructions;
          main_message = main_message
            @ (''\<newline>\<newline>STATEMENT:\<newline>'' @ statement @ ''\<newline>END OF STATEMENT'')
      in main_message)"

definition contains_duplicate_information_counts ::
  "string \<Rightarrow> openai_service \<Rightarrow> token_counts" where
  "contains_duplicate_information_counts statement openai_service =
     (let main_message = contains_duplicate_information_message statement;
          statement_tokens = get_token_count openai_service statement;
          total_tokens = get_token_count openai_service main_message;
          base_prompt_tokens = total_tokens - statement_tokens
      in \<lparr>segment_tokens = [(''Statement'', statement_tokens)],
          base_prompt_tokens = base_prompt_tokens,
          total_tokens = total_tokens\<rparr>)"

definition contains_duplicate_information ::
  "string \<Rightarrow> openai_service \<Rightarrow> exn + string" where
  "contains_duplicate_information statement openai_service =
     call_with_breakdown openai_service
       (contains_duplicate_information_message statement)
       ''Duplicate information''
       (contains_duplicate_information_counts statement openai_service)"


section \<open>\<open>tval/llm_calls.py\<close>\<close>

text \<open>
  The older module builds each instruction text from a triple-quoted literal by
  \<open>.replace(NEWLINE_INDENT_STRING, " ").strip()\<close>. \<open>str_replace\<close> is \<open>str.replace\<close>
  (the occurrences from left to right, not overlapping), \<open>str_strip\<close> is \<open>str.strip()\<close>
  on the ASCII whitespace characters. Each function then hands its \<open>main_message\<close> to
  \<open>get_single_message\<close> of \<open>tval.openai_api_util\<close> with temperature 0; only the
  construction of \<open>main_message\<close> is modelled.
\<close>

definition is_space :: "char \<Rightarrow> bool" where
  "is_space c \<longleftrightarrow>
     c \<in> set [CHR '' '', CHR 0x09, CHR 0x0A, CHR 0x0B, CHR 0x0C, CHR 0x0D,
       CHR 0x1C, CHR 0x1D, CHR 0x1E, CHR 0x1F]"

definition str_strip :: "string \<Rightarrow> string" where
  "str_strip s = rev (dropWhile is_space (rev (dropWhile is_space s)))"

function str_replace :: "string \<Rightarrow> string \<Rightarrow> string \<Rightarrow> string" where
  "str_replace old new s =
     (if old = [] then new @ concat (map (\<lambda>c. c # new) s)
      else if prefix old s then new @ str_replace old new (drop (length old) s)
      else (case s of [] \<Rightarrow> [] | c # cs \<Rightarrow> c # str_replace old new cs))"
  by pat_completeness auto

termination
proof (relation "measure (\<lambda>(old, new, s). length s)")
  show "wf (measure (\<lambda>(old, new, s). length s))"
    by simp
next
  fix old new s :: string
  assume "old \<noteq> []" and "prefix old s"
  then have "s \<noteq> []"
    by auto
  with \<open>old \<noteq> []\<close>
  show "((old, new, drop (length old) s), (old, new, s))
          \<in> measure (\<lambda>(old, new, s). length s)"
    by simp
next
  fix old new s :: string and c cs
  assume "s = c # cs"
  then show "((old, new, cs), (old, new, s)) \<in> measure (\<lambda>(old, new, s). length s)"
    by simp
qed

declare str_replace.simps [simp del]

definition NEWLINE_INDENT_STRING :: string where
  "NEWLINE_INDENT_STRING = ''\<newline>    ''"

subsection \<open>\<open>ask_for_similarity_score\<close>\<close>

definition ask_for_similarity_score_instructions :: string where
  "ask_for_similarity_score_instructions =
     str_strip (str_replace NEWLINE_INDENT_STRING '' ''
       (''\<newline>''
        @ ''    Considering the reference answer and the new answer to the following question, on\<newline>''
        @ ''    a scale of 0 to 5, where 5 means the same and 0 means not similar, how similar in\<newline>''
        @ ''    meaning is the new answer to the reference answer? Respond with just a number and\<newline>''
        @ ''    no additional text.\<newline>''
        @ ''    ''))"

definition ask_for_similarity_score_message :: "string \<Rightarrow> string \<Rightarrow> string \<Rightarrow> string" where
  "ask_for_similarity_score_message question reference_answer llm_answer =
     (let main_message = ask_for_similarity_score_instructions;
          main_message = main_message @ (''\<newline>QUESTION: '' @ question @ ''\<newline>'');
          main_message = main_message @ (''REFERENCE ANSWER: '' @ reference_answer @ ''\<newline>'');
          main_message = main_message @ (''NEW ANSWER: '' @ llm_answer @ ''\<newline>'')
      in main_message)"

subsection \<open>\<open>ask_whether_answer_is_consistent_with_context\<close>\<close>

definition ask_whether_answer_is_consistent_with_context_instructions :: string where
  "ask_whether_answer_is_consistent_with_context_instructions =
     str_strip (str_replace NEWLINE_INDENT_STRING '' ''
       (''\<newline>''
        @ ''    Considering the following list of context and then answer, which answers a\<newline>''
        @ ''    user's query using the context, determine whether the answer contains any\<newline>''
        @ ''    information that can not be attributed to the intormation in the list of\<newline>''
        @ ''    context. If the answer contains information that cannot be attributed to the\<newline>''
        @ ''    context then respond with true. Otherwise response with false. Response with\<newline>''
        @ ''    either true or false and no additional text.\<newline>''
        @ ''    ''))"

definition ask_whether_answer_is_consistent_with_context_message ::
  "string \<Rightarrow> string list \<Rightarrow> string" where
  "ask_whether_answer_is_consistent_with_context_message answer context_list =
     (let main_message = ask_whether_answer_is_consistent_with_context_instructions;
          main_message = append_contexts context_list main_message;
          main_message = main_message @ (''\<newline>\<newline>ANSWER: '' @ answer)
      in main_message)"

subsection \<open>\<open>ask_whether_context_is_relevant\<close>\<close>

definition ask_whether_context_is_relevant_instructions :: string where
  "ask_whether_context_is_relevant_instructions =
     str_strip (str_replace NEWLINE_INDENT_STRING '' ''
       (''\<newline>''
        @ ''    Considering the following question and context, determine whether the context\<newline>''
        @ ''    is relevant for answering the question. If the context is relevant for answering\<newline>''
        @ ''    the question, responsd with true. If the context is not relevant for answering\<newline>''
        @ ''    the question, respond with false. Respond with either true or false and no\<newline>''
        @ ''    additinal text.\<newline>''
        @ ''    ''))"

definition ask_whether_context_is_relevant_message :: "string \<Rightarrow> string \<Rightarrow> string" where
  "ask_whether_context_is_relevant_message question context =
     (let main_message = ask_whether_context_is_relevant_instructions;
          main_message = main_message @ (''\<newline>QUESTION: '' @ question @ ''\<newline>'');
          main_message = main_message @ (''CONTEXT: '' @ context @ ''\<newline>'')
      in main_message)"

subsection \<open>\<open>ask_whether_answer_contains_context\<close>\<close>

definition ask_whether_answer_contains_context_instructions :: string where
  "ask_whether_answer_contains_context_instructions =
     str_strip (str_replace NEWLINE_INDENT_STRING '' ''
       (''\<newline>''
        @ ''    Considering the following answer and context, determine whether the answer\<newline>''
        @ ''    contains information derived from the context. If the answer contains\<newline>''
        @ ''    information derived from the context, respond with true. If the answer does not\<newline>''
        @ ''    contain information derived from the context, respond with false.  Respond with\<newline>''
        @ ''    either true or false and no additinal text.\<newline>''
        @ ''    ''))"

definition ask_whether_answer_contains_context_message :: "string \<Rightarrow> string \<Rightarrow> string" where
  "ask_whether_answer_contains_context_message answer context =
     (let main_message = ask_whether_answer_contains_context_instructions;
          main_message = main_message @ (''\<newline>ANSWER: '' @ answer @ ''\<newline>'');
          main_message = main_message @ (''CONTEXT: '' @ context @ ''\<newline>'')
      in main_message)"

subsection \<open>\<open>ask_for_main_points\<close>\<close>

definition ask_for_main_points_instructions :: string where
  "ask_for_main_points_instructions =
     str_strip (str_replace NEWLINE_INDENT_STRING '' ''
       (''\<newline>''
        @ ''    Write down in a bulleted list using markdown (so each bullet is a ''
        @ [CHR 0x22] @ ''*'' @ [CHR 0x22] @ ''), the main\<newline>''
        @ ''    points in the following answer to a user's query. Respond with the bulleted list\<newline>''
        @ ''    and no additional text. Only use a single '' @ [CHR 0x22] @ ''*'' @ [CHR 0x22]
        @ '' for each bullet and do not use a '' @ [CHR 0x22] @ ''*'' @ [CHR 0x22] @ ''\<newline>''
        @ ''    anywhere in your response except for the bullets.\<newline>''
        @ ''    ''))"

definition ask_for_main_points_message :: "string \<Rightarrow> string" where
  "ask_for_main_points_message answer =
     (let main_message = ask_for_main_points_instructions;
          main_message = main_message @ (''\<newline>ANSWER: '' @ answer)
      in main_message)"

subsection \<open>\<open>ask_whether_statement_derived_from_context\<close>\<close>

definition ask_whether_statement_derived_from_context_instructions :: string where
  "ask_whether_statement_derived_from_context_instructions =
     str_strip (str_replace NEWLINE_INDENT_STRING '' ''
       (''\<newline>''
        @ ''    Considering the following statement and then list of context, determine whether the\<newline>''
        @ ''    statement can be derived from the context. If the statement can be derived from the\<newline>''
        @ ''    context response with true. Otherwise response with false. Respond with either true\<newline>''
        @ ''    or false and no additional text.\<newline>''
        @ ''    ''))"

definition ask_whether_statement_derived_from_context_message ::
  "string \<Rightarrow> string list \<Rightarrow> string" where
  "ask_whether_statement_derived_from_context_message statement context_list =
     (let main_message = ask_whether_statement_derived_from_context_instructions;
          main_message = main_message
            @ (''\<newline>\<newline>STATEMENT:\<newline>'' @ statement @ ''\<newline>END OF STATEMENT'');
          main_message = append_contexts context_list main_message
      in main_message)"


section \<open>\<open>tonic_validate/metrics/answer_contains_pii_metric.py\<close>\<close>

text \<open>
  \<open>str.lower()\<close> is Python's own method, which lowercases every cased letter of a
  string by the Unicode case mapping. It is no code of this repository: the definitions
  that call it take it as their first parameter \<open>lower\<close>, and what is proved about them
  holds for every such function. \<open>str_join\<close> is \<open>str.join\<close>.
\<close>

fun str_join :: "string \<Rightarrow> string list \<Rightarrow> string" where
  "str_join sep [] = []"
| "str_join sep [x] = x"
| "str_join sep (x # y # ys) = x @ sep @ str_join sep (y # ys)"

text \<open>
  \<open>LLMResponse\<close> (of which only the two attributes below are read here), the response
  of the redaction collaborator \<open>TonicTextual.redact\<close> (only the \<open>label\<close> of each
  entry of \<open>de_identify_results\<close> is read), and the metric object with the two
  attributes \<open>__init__\<close> sets. The client \<open>self.textual\<close> is modelled by its method
  \<open>redact\<close>.
\<close>

record llm_response =
  llm_answer :: string
  llm_context_list :: "string list"

record de_identify_result =
  label :: string

record redaction_response =
  de_identify_results :: "de_identify_result list"

type_synonym tonic_textual = "string \<Rightarrow> exn + redaction_response"

record answer_contains_pii_metric =
  pii_types :: "string list"
  textual :: tonic_textual

text \<open>
  \<open>__init__\<close>. The constructor of the client, \<open>TonicTextual\<close>, and the value of the
  environment variable \<open>TONIC_TEXTUAL_API_KEY\<close> are parameters, after \<open>lower\<close>.
\<close>

definition answer_contains_pii_metric_init ::
  "(string \<Rightarrow> string) \<Rightarrow> (string \<Rightarrow> string option \<Rightarrow> tonic_textual) \<Rightarrow> string option
     \<Rightarrow> string list \<Rightarrow> string option \<Rightarrow> exn + answer_contains_pii_metric" where
  "answer_contains_pii_metric_init lower TonicTextual env_api_key requested_pii_types
       textual_api_key =
     (let lowered = map lower requested_pii_types in
      case textual_api_key of
        None \<Rightarrow>
          (case env_api_key of
             None \<Rightarrow>
               Inl (ValueError (''You must set TONIC_TEXTUAL_API_KEY in your ENV or pass ''
                 @ ''your Textual API key into the constructor.''))
           | Some _ \<Rightarrow>
               Inr \<lparr>pii_types = lowered,
                    textual = TonicTextual ''https://textual.tonic.ai'' None\<rparr>)
      | Some key \<Rightarrow>
          Inr \<lparr>pii_types = lowered,
               textual = TonicTextual ''https://textual.tonic.ai'' (Some key)\<rparr>)"

text \<open>
  The loop of \<open>metric_callback\<close> over the detected entities, with its early
  \<open>return 1.0\<close> and the \<open>return 0.0\<close> after it. The two floats are the reals 1
  and 0. In \<open>metric_callback\<close> the \<open>try\<close> block catches every \<open>Exception\<close>; the
  call of \<open>redact\<close> is the one operation of the block that can raise on well-typed
  inputs.
\<close>

fun scan_labels ::
  "(string \<Rightarrow> string) \<Rightarrow> string list \<Rightarrow> de_identify_result list \<Rightarrow> real" where
  "scan_labels lower types [] = 0"
| "scan_labels lower types (d # ds) =
     (if lower (label d) \<in> set types then 1 else scan_labels lower types ds)"

definition metric_callback ::
  "(string \<Rightarrow> string) \<Rightarrow> answer_contains_pii_metric \<Rightarrow> llm_response \<Rightarrow> openai_service
     \<Rightarrow> exn + real" where
  "metric_callback lower self llm_response openai_service =
     (case textual self (str_join ''\<newline>'' (llm_context_list llm_response)) of
        Inr response \<Rightarrow>
          Inr (scan_labels lower (pii_types self) (de_identify_results response))
      | Inl _ \<Rightarrow>
          Inl (ValueError (''Cannot compute AnswerContainsPiiMetric. Error occured ''
            @ ''communicating with Textual.  Please try again later or reach out via ''
            @ ''GitHub issues.'')))"

section \<open>Notions used to state the properties\<close>

text \<open>
  The breakdown invariant of the specification: the reported segment counts and the
  base prompt count add up to the total.
\<close>

definition breakdown_adds_up :: "token_counts \<Rightarrow> bool" where
  "breakdown_adds_up counts \<longleftrightarrow>
     sum_list (map snd (segment_tokens counts)) + base_prompt_tokens counts
       = total_tokens counts"

text \<open>
  The context blocks as the specification words them: block \<open>i\<close> is
  \<open>CONTEXT {i}:\n{text}\nEND OF CONTEXT {i}\<close> for entry \<open>i\<close> of the list, in the
  order of the list, counted from 0.
\<close>

definition spec_context_blocks :: "string list \<Rightarrow> string list" where
  "spec_context_blocks context_list =
     map (\<lambda>i. ''CONTEXT '' @ str_nat i @ '':\<newline>'' @ context_list ! i
                @ ''\<newline>END OF CONTEXT '' @ str_nat i)
       [0..<length context_list]"

text \<open>
  Example collaborators for the concrete instances below: a service whose every
  request overflows the context window and whose tokenizer counts characters, and a
  service that answers every request with the same text.
\<close>

definition overflowing_service :: openai_service where
  "overflowing_service =
     \<lparr>model = ''gpt-4-turbo'',
      get_response =
        (\<lambda>main_message. Inl (ContextLengthException ''maximum context length exceeded'')),
      get_token_count = (\<lambda>text. int (length text))\<rparr>"

definition answering_service :: "string \<Rightarrow> openai_service" where
  "answering_service reply =
     \<lparr>model = ''gpt-3.5-turbo'',
      get_response = (\<lambda>main_message. Inr reply),
      get_token_count = (\<lambda>text. 0)\<rparr>"

text \<open>
  An example lowering function for the concrete instances below, which are all in
  ASCII: it maps \<open>A\<close> to \<open>Z\<close> onto \<open>a\<close> to \<open>z\<close> and leaves every other character
  as it is, which is what \<open>str.lower()\<close> computes on a string of ASCII characters. It
  is not a model of \<open>str.lower()\<close> on other strings.
\<close>

definition ascii_lower_char :: "char \<Rightarrow> char" where
  "ascii_lower_char c =
     (if 65 \<le> (of_char c :: nat) \<and> (of_char c :: nat) \<le> 90
      then char_of ((of_char c :: nat) + 32) else c)"

definition ascii_lower :: "string \<Rightarrow> string" where
  "ascii_lower s = map ascii_lower_char s"

text \<open>
  Example redaction clients: one that detects the same entities in every text, one that
  detects an e-mail address in a text with an at sign and nothing else, and one whose
  every request fails.
\<close>

definition detecting_textual :: "string list \<Rightarrow> string \<Rightarrow> string option \<Rightarrow> tonic_textual" where
  "detecting_textual labels url api_key =
     (\<lambda>s. Inr \<lparr>de_identify_results = map (\<lambda>l. \<lparr>label = l\<rparr>) labels\<rparr>)"

definition at_sign_textual :: "string \<Rightarrow> string option \<Rightarrow> tonic_textual" where
  "at_sign_textual url api_key =
     (\<lambda>s. Inr \<lparr>de_identify_results =
        (if CHR ''@'' \<in> set s then [\<lparr>label = ''EMAIL_ADDRESS''\<rparr>] else [])\<rparr>)"

definition failing_textual :: "string \<Rightarrow> string option \<Rightarrow> tonic_textual" where
  "failing_textual url api_key = (\<lambda>s. Inl (OtherException ''connection refused''))"



section \<open>Auxiliary lemmas\<close>

lemma fold_context_blocks:
  "fold (\<lambda>(i, context) main_message. main_message @ context_block i context)
     (enumerate n context_list) main_message
   = main_message @ concat (map (\<lambda>(i, context). context_block i context)
       (enumerate n context_list))"
  by (induction context_list arbitrary: n main_message) simp_all

lemma enumerate_blocks:
  "map (\<lambda>(i, context). context_block i context) (enumerate 0 context_list)
   = map (\<lambda>block. ''\<newline>\<newline>'' @ block) (spec_context_blocks context_list)"
  by (rule nth_equalityI)
    (simp_all add: spec_context_blocks_def nth_enumerate_eq context_block_def)

lemma append_contexts_blocks:
  "append_contexts context_list main_message
   = main_message
       @ concat (map (\<lambda>block. ''\<newline>\<newline>'' @ block) (spec_context_blocks context_list))"
  by (simp add: append_contexts_def fold_context_blocks enumerate_blocks)

lemma append_contexts_Nil: "append_contexts [] main_message = main_message"
  by (simp add: append_contexts_def)

lemma fold_token_sum:
  "fold (\<lambda>context context_tokens. context_tokens + f context) context_list acc
   = acc + sum_list (map f context_list)"
  for acc :: int
  by (induction context_list arbitrary: acc) simp_all

lemma sum_context_tokens_sum_list:
  "sum_context_tokens openai_service context_list
   = sum_list (map (get_token_count openai_service) context_list)"
  by (simp add: sum_context_tokens_def fold_token_sum)

lemma call_with_breakdown_overflow:
  "get_response openai_service main_message = Inl (ContextLengthException e) \<Longrightarrow>
   call_with_breakdown openai_service main_message prompt_name counts
   = Inl (ContextLengthException (token_count_message prompt_name e counts))"
  by (simp add: call_with_breakdown_def)

text \<open>
  An occurrence of a pattern in \<open>ys @ zs\<close> lies in \<open>ys\<close> or in \<open>zs\<close> when the
  character at the seam does not occur in the pattern.
\<close>

lemma sublist_append_last:
  assumes "sublist p (ys @ zs)" and "ys \<noteq> []" and "last ys \<notin> set p"
  shows "sublist p ys \<or> sublist p zs"
proof -
  from assms(1) consider "sublist p ys" | "sublist p zs"
    | xs1 xs2 where "p = xs1 @ xs2" "suffix xs1 ys" "prefix xs2 zs"
    by (auto simp: sublist_append)
  then show ?thesis
  proof cases
    case 3
    show ?thesis
    proof (cases "xs1 = []")
      case True
      with 3 show ?thesis by (auto intro: prefix_imp_sublist)
    next
      case False
      with 3(2) have "last xs1 = last ys" by (auto simp: suffix_def)
      moreover from False have "last xs1 \<in> set xs1" by simp
      ultimately show ?thesis using 3(1) assms(3) by simp
    qed
  qed auto
qed

lemma sublist_append_hd:
  assumes "sublist p (ys @ zs)" and "zs \<noteq> []" and "hd zs \<notin> set p"
  shows "sublist p ys \<or> sublist p zs"
proof -
  from assms(1) consider "sublist p ys" | "sublist p zs"
    | xs1 xs2 where "p = xs1 @ xs2" "suffix xs1 ys" "prefix xs2 zs"
    by (auto simp: sublist_append)
  then show ?thesis
  proof cases
    case 3
    show ?thesis
    proof (cases "xs2 = []")
      case True
      with 3 show ?thesis by (auto intro: suffix_imp_sublist)
    next
      case False
      with 3(3) have "hd xs2 = hd zs" by (auto simp: prefix_def)
      moreover from False have "hd xs2 \<in> set xs2" by simp
      ultimately show ?thesis using 3(1) assms(3) by simp
    qed
  qed auto
qed

lemma consistency_head_without_CONTEXT:
  "\<not> sublist ''CONTEXT''
       (answer_consistent_with_context_instructions @ ''\<newline>\<newline>ANSWER: '')"
  by code_simp

lemma derivation_head_without_CONTEXT:
  "\<not> sublist ''CONTEXT''
       (statement_derived_from_context_instructions @ ''\<newline>\<newline>STATEMENT:\<newline>'')"
  by code_simp

lemma derivation_tail_without_CONTEXT:
  "\<not> sublist ''CONTEXT'' ''\<newline>END OF STATEMENT''"
  by code_simp

lemma scan_labels_iff:
  "scan_labels lower types ds =
     (if \<exists>d \<in> set ds. lower (label d) \<in> set types then 1 else 0)"
  by (induction ds) simp_all

lemma init_pii_types:
  "answer_contains_pii_metric_init lower TonicTextual env_api_key requested textual_api_key
     = Inr self
   \<Longrightarrow> pii_types self = map lower requested"
  by (auto simp: answer_contains_pii_metric_init_def Let_def split: option.splits)



section \<open>Properties\<close>

subsection \<open>The breakdown adds up\<close>

text \<open>
  Claim C2. For each of the seven functions, whatever the inputs and whatever the
  token counter of the service returns, the token counts its recovery path reports
  satisfy: the sum of the reported segment counts plus the base prompt count equals
  the total count.
\<close>

theorem token_breakdown_adds_up:
  "breakdown_adds_up
     (similarity_score_counts question reference_answer new_answer openai_service)
   \<and> breakdown_adds_up
       (answer_consistent_with_context_counts answer context_list openai_service)
   \<and> breakdown_adds_up (context_relevancy_counts question context openai_service)
   \<and> breakdown_adds_up (answer_contains_context_counts answer context openai_service)
   \<and> breakdown_adds_up (main_points_counts answer openai_service)
   \<and> breakdown_adds_up
       (statement_derived_from_context_counts statement context_list openai_service)
   \<and> breakdown_adds_up (contains_duplicate_information_counts statement openai_service)"
  by (simp add: breakdown_adds_up_def similarity_score_counts_def
      answer_consistent_with_context_counts_def context_relevancy_counts_def
      answer_contains_context_counts_def main_points_counts_def
      statement_derived_from_context_counts_def contains_duplicate_information_counts_def
      Let_def)

subsection \<open>The similarity prompt carries its inputs verbatim\<close>

text \<open>
  Claim C7. For every question, reference answer and new answer, the similarity prompt
  is the instruction text followed by the three inputs, unchanged and in full, each
  after its label; so the prompt contains \<open>QUESTION: \<close> followed by the question,
  \<open>REFERENCE ANSWER: \<close> followed by the reference answer and \<open>NEW ANSWER: \<close>
  followed by the new answer.
\<close>

theorem similarity_prompt_verbatim:
  "similarity_score_message question reference_answer new_answer =
     similarity_score_instructions
       @ ''\<newline>QUESTION: '' @ question
       @ ''\<newline>REFERENCE ANSWER: '' @ reference_answer
       @ ''\<newline>NEW ANSWER: '' @ new_answer @ ''\<newline>''
   \<and> sublist (''QUESTION: '' @ question)
         (similarity_score_message question reference_answer new_answer)
   \<and> sublist (''REFERENCE ANSWER: '' @ reference_answer)
         (similarity_score_message question reference_answer new_answer)
   \<and> sublist (''NEW ANSWER: '' @ new_answer)
         (similarity_score_message question reference_answer new_answer)"
proof -
  let ?m = "similarity_score_message question reference_answer new_answer"
  have eq: "?m = similarity_score_instructions
       @ ''\<newline>QUESTION: '' @ question
       @ ''\<newline>REFERENCE ANSWER: '' @ reference_answer
       @ ''\<newline>NEW ANSWER: '' @ new_answer @ ''\<newline>''"
    by (simp add: similarity_score_message_def Let_def)
  have "?m = (similarity_score_instructions @ ''\<newline>'') @ (''QUESTION: '' @ question)
       @ (''\<newline>REFERENCE ANSWER: '' @ reference_answer
       @ ''\<newline>NEW ANSWER: '' @ new_answer @ ''\<newline>'')"
    by (simp add: eq)
  then have q: "sublist (''QUESTION: '' @ question) ?m"
    by (metis sublist_appendI)
  have "?m = (similarity_score_instructions @ ''\<newline>QUESTION: '' @ question @ ''\<newline>'')
       @ (''REFERENCE ANSWER: '' @ reference_answer)
       @ (''\<newline>NEW ANSWER: '' @ new_answer @ ''\<newline>'')"
    by (simp add: eq)
  then have r: "sublist (''REFERENCE ANSWER: '' @ reference_answer) ?m"
    by (metis sublist_appendI)
  have "?m = (similarity_score_instructions @ ''\<newline>QUESTION: '' @ question
       @ ''\<newline>REFERENCE ANSWER: '' @ reference_answer @ ''\<newline>'')
       @ (''NEW ANSWER: '' @ new_answer) @ ''\<newline>''"
    by (simp add: eq)
  then have a: "sublist (''NEW ANSWER: '' @ new_answer) ?m"
    by (metis sublist_appendI)
  from eq q r a show ?thesis
    by blast
qed

subsection \<open>Context blocks\<close>

text \<open>
  Claim C5. For every context list of length \<open>n\<close>, the consistency prompt is the
  instruction text, then the \<open>n\<close> blocks of the list, each after a blank line, then the
  answer; the derivation prompt is the instruction text, the statement, then the same
  \<open>n\<close> blocks. There are exactly \<open>n\<close> blocks, block \<open>i\<close> is
  \<open>CONTEXT i:\<close>, entry \<open>i\<close> of the list, \<open>END OF CONTEXT i\<close>, for \<open>i\<close> from 0 to
  \<open>n - 1\<close>; and after swapping entries \<open>i\<close> and \<open>j\<close> of the list, block \<open>i\<close>
  carries the text that was entry \<open>j\<close>.
\<close>

theorem context_blocks_numbered_in_order:
  "answer_consistent_with_context_message answer context_list =
     answer_consistent_with_context_instructions
       @ concat (map (\<lambda>block. ''\<newline>\<newline>'' @ block) (spec_context_blocks context_list))
       @ ''\<newline>\<newline>ANSWER: '' @ answer
   \<and> statement_derived_from_context_message statement context_list =
       statement_derived_from_context_instructions
         @ ''\<newline>\<newline>STATEMENT:\<newline>'' @ statement @ ''\<newline>END OF STATEMENT''
         @ concat (map (\<lambda>block. ''\<newline>\<newline>'' @ block) (spec_context_blocks context_list))
   \<and> length (spec_context_blocks context_list) = length context_list
   \<and> (\<forall>i < length context_list.
         spec_context_blocks context_list ! i =
           ''CONTEXT '' @ str_nat i @ '':\<newline>'' @ context_list ! i
             @ ''\<newline>END OF CONTEXT '' @ str_nat i)
   \<and> (\<forall>i < length context_list. \<forall>j < length context_list.
         spec_context_blocks (context_list[i := context_list ! j, j := context_list ! i]) ! i =
           ''CONTEXT '' @ str_nat i @ '':\<newline>'' @ context_list ! j
             @ ''\<newline>END OF CONTEXT '' @ str_nat i)"
proof -
  have "answer_consistent_with_context_message answer context_list =
     answer_consistent_with_context_instructions
       @ concat (map (\<lambda>block. ''\<newline>\<newline>'' @ block) (spec_context_blocks context_list))
       @ ''\<newline>\<newline>ANSWER: '' @ answer"
    by (simp add: answer_consistent_with_context_message_def Let_def append_contexts_blocks)
  moreover have "statement_derived_from_context_message statement context_list =
       statement_derived_from_context_instructions
         @ ''\<newline>\<newline>STATEMENT:\<newline>'' @ statement @ ''\<newline>END OF STATEMENT''
         @ concat (map (\<lambda>block. ''\<newline>\<newline>'' @ block) (spec_context_blocks context_list))"
    by (simp add: statement_derived_from_context_message_def Let_def append_contexts_blocks)
  moreover have "length (spec_context_blocks context_list) = length context_list"
    by (simp add: spec_context_blocks_def)
  moreover have "\<forall>i < length context_list.
         spec_context_blocks context_list ! i =
           ''CONTEXT '' @ str_nat i @ '':\<newline>'' @ context_list ! i
             @ ''\<newline>END OF CONTEXT '' @ str_nat i"
    by (simp add: spec_context_blocks_def)
  moreover have "\<forall>i < length context_list. \<forall>j < length context_list.
         spec_context_blocks (context_list[i := context_list ! j, j := context_list ! i]) ! i =
           ''CONTEXT '' @ str_nat i @ '':\<newline>'' @ context_list ! j
             @ ''\<newline>END OF CONTEXT '' @ str_nat i"
    by (simp add: spec_context_blocks_def nth_list_update)
  ultimately show ?thesis
    by blast
qed

theorem context_blocks_numbered_in_order_witness:
  "answer_consistent_with_context_message ''Yes'' [''red'', ''blue''] =
     answer_consistent_with_context_instructions
       @ concat (map (\<lambda>block. ''\<newline>\<newline>'' @ block) (spec_context_blocks [''red'', ''blue'']))
       @ ''\<newline>\<newline>ANSWER: '' @ ''Yes''
   \<and> length (spec_context_blocks [''red'', ''blue'']) = 2
   \<and> spec_context_blocks [''red'', ''blue''] ! 0 = ''CONTEXT 0:\<newline>red\<newline>END OF CONTEXT 0''
   \<and> spec_context_blocks [''red'', ''blue''] ! 1 = ''CONTEXT 1:\<newline>blue\<newline>END OF CONTEXT 1''
   \<and> spec_context_blocks ([''red'', ''blue''][0 := ''blue'', 1 := ''red'']) ! 0
       = ''CONTEXT 0:\<newline>blue\<newline>END OF CONTEXT 0''"
proof -
  note blocks = context_blocks_numbered_in_order [of "''Yes''" "[''red'', ''blue'']" "''S''"]
  have n0: "str_nat 0 = ''0''" and "str_nat 1 = ''1''"
    by code_simp+
  then have n1: "str_nat (Suc 0) = ''1''"
    by simp
  have message: "answer_consistent_with_context_message ''Yes'' [''red'', ''blue''] =
     answer_consistent_with_context_instructions
       @ concat (map (\<lambda>block. ''\<newline>\<newline>'' @ block) (spec_context_blocks [''red'', ''blue'']))
       @ ''\<newline>\<newline>ANSWER: '' @ ''Yes''"
    by (rule blocks [THEN conjunct1])
  have len: "length (spec_context_blocks [''red'', ''blue'']) = 2"
    using blocks [THEN conjunct2, THEN conjunct2, THEN conjunct1] by simp
  note nth = blocks [THEN conjunct2, THEN conjunct2, THEN conjunct2, THEN conjunct1, rule_format]
  note swap = blocks [THEN conjunct2, THEN conjunct2, THEN conjunct2, THEN conjunct2, rule_format]
  have b0: "spec_context_blocks [''red'', ''blue''] ! 0 = ''CONTEXT 0:\<newline>red\<newline>END OF CONTEXT 0''"
    using nth [of 0] by (simp add: n0)
  have b1: "spec_context_blocks [''red'', ''blue''] ! 1 = ''CONTEXT 1:\<newline>blue\<newline>END OF CONTEXT 1''"
    using nth [of 1] by (simp add: n1)
  have s0: "spec_context_blocks ([''red'', ''blue''][0 := ''blue'', 1 := ''red'']) ! 0
       = ''CONTEXT 0:\<newline>blue\<newline>END OF CONTEXT 0''"
    using swap [of 0 1] by (simp add: n0)
  from message len b0 b1 s0 show ?thesis
    by (intro conjI)
qed

subsection \<open>The empty context list\<close>

text \<open>
  Claim C6. For the empty context list the consistency prompt is the instruction text
  followed at once by the answer part, and the derivation prompt is the instruction text
  followed by the statement part and nothing after it: no context block and no
  separator of one is rendered. Unless the answer (the statement) itself contains the
  word \<open>CONTEXT\<close>, the word does not occur in the prompt at all. Both builders are total
  functions, so building succeeds.
\<close>

theorem empty_context_list_prompts:
  "answer_consistent_with_context_message answer [] =
     answer_consistent_with_context_instructions @ ''\<newline>\<newline>ANSWER: '' @ answer
   \<and> statement_derived_from_context_message statement [] =
       statement_derived_from_context_instructions
         @ ''\<newline>\<newline>STATEMENT:\<newline>'' @ statement @ ''\<newline>END OF STATEMENT''
   \<and> (\<not> sublist ''CONTEXT'' answer \<longrightarrow>
        \<not> sublist ''CONTEXT'' (answer_consistent_with_context_message answer []))
   \<and> (\<not> sublist ''CONTEXT'' statement \<longrightarrow>
        \<not> sublist ''CONTEXT'' (statement_derived_from_context_message statement []))"
proof -
  have c: "answer_consistent_with_context_message answer [] =
     (answer_consistent_with_context_instructions @ ''\<newline>\<newline>ANSWER: '') @ answer"
    by (simp add: answer_consistent_with_context_message_def Let_def append_contexts_Nil)
  have d: "statement_derived_from_context_message statement [] =
       (statement_derived_from_context_instructions @ ''\<newline>\<newline>STATEMENT:\<newline>'')
         @ (statement @ ''\<newline>END OF STATEMENT'')"
    by (simp add: statement_derived_from_context_message_def Let_def append_contexts_Nil)
  have c_free: "\<not> sublist ''CONTEXT'' (answer_consistent_with_context_message answer [])"
    if "\<not> sublist ''CONTEXT'' answer"
  proof
    assume "sublist ''CONTEXT'' (answer_consistent_with_context_message answer [])"
    then have "sublist ''CONTEXT''
        ((answer_consistent_with_context_instructions @ ''\<newline>\<newline>ANSWER: '') @ answer)"
      by (simp only: c)
    then have "sublist ''CONTEXT''
          (answer_consistent_with_context_instructions @ ''\<newline>\<newline>ANSWER: '')
        \<or> sublist ''CONTEXT'' answer"
      by (rule sublist_append_last) simp_all
    with that consistency_head_without_CONTEXT show False
      by blast
  qed
  have d_free: "\<not> sublist ''CONTEXT'' (statement_derived_from_context_message statement [])"
    if "\<not> sublist ''CONTEXT'' statement"
  proof
    assume "sublist ''CONTEXT'' (statement_derived_from_context_message statement [])"
    then have "sublist ''CONTEXT''
        ((statement_derived_from_context_instructions @ ''\<newline>\<newline>STATEMENT:\<newline>'')
           @ (statement @ ''\<newline>END OF STATEMENT''))"
      by (simp only: d)
    then have "sublist ''CONTEXT''
          (statement_derived_from_context_instructions @ ''\<newline>\<newline>STATEMENT:\<newline>'')
        \<or> sublist ''CONTEXT'' (statement @ ''\<newline>END OF STATEMENT'')"
      by (rule sublist_append_last) simp_all
    with derivation_head_without_CONTEXT
    have "sublist ''CONTEXT'' (statement @ ''\<newline>END OF STATEMENT'')"
      by blast
    then have "sublist ''CONTEXT'' statement \<or> sublist ''CONTEXT'' ''\<newline>END OF STATEMENT''"
      by (rule sublist_append_hd) simp_all
    with that derivation_tail_without_CONTEXT show False
      by blast
  qed
  from c d c_free d_free show ?thesis
    by simp
qed

theorem empty_context_list_prompts_witness:
  "\<not> sublist ''CONTEXT'' (answer_consistent_with_context_message ''Paris'' [])
   \<and> \<not> sublist ''CONTEXT'' (statement_derived_from_context_message ''It rains.'' [])"
proof -
  have a: "\<not> sublist ''CONTEXT'' ''Paris''"
    by code_simp
  have s: "\<not> sublist ''CONTEXT'' ''It rains.''"
    by code_simp
  from a s show ?thesis
    using empty_context_list_prompts [of "''Paris''" "''It rains.''"]
    by blast
qed

subsection \<open>The error raised on a context-length failure\<close>

text \<open>
  Claim C1, amended. For each of the seven functions of
  \<open>tonic_validate/utils/llm_calls.py\<close>: when the service raises a
  \<open>ContextLengthException\<close> for the prompt, the call raises a
  \<open>ContextLengthException\<close> whose message contains the message of the original
  exception, one token count for each input of the function, the base prompt token
  count and the total token count. For the two functions with a context list,
  Consistency and Derivation, the list is reported by a single \<open>Context tokens\<close>
  count, the sum of the token counts of its entries.
\<close>

theorem context_length_error_reports_breakdown:
  "(get_response openai_service (similarity_score_message question reference_answer new_answer) = Inl (ContextLengthException e) \<longrightarrow>
    similarity_score_call question reference_answer new_answer openai_service =
      Inl (ContextLengthException
        (''Similarity score prompt too long to score item. OpenAI returned the following error message''
         @ ''\<newline>----------''
         @ ''\<newline>'' @ e
         @ ''\<newline>----------''
         @ ''\<newline>See details below for breakdown of token counts''
         @ ''\<newline>Question tokens: '' @ str_int (get_token_count openai_service question)
         @ ''\<newline>Reference answer tokens: '' @ str_int (get_token_count openai_service reference_answer)
         @ ''\<newline>New answer tokens: '' @ str_int (get_token_count openai_service new_answer)
         @ ''\<newline>Base prompt tokens: ''
           @ str_int (get_token_count openai_service (similarity_score_message question reference_answer new_answer)
              - get_token_count openai_service question
              - get_token_count openai_service reference_answer
              - get_token_count openai_service new_answer)
         @ ''\<newline>Total tokens: '' @ str_int (get_token_count openai_service (similarity_score_message question reference_answer new_answer)))))
   \<and> (get_response openai_service (answer_consistent_with_context_message answer context_list) = Inl (ContextLengthException e) \<longrightarrow>
    answer_consistent_with_context_call answer context_list openai_service =
      Inl (ContextLengthException
        (''Consistency prompt too long to score item. OpenAI returned the following error message''
         @ ''\<newline>----------''
         @ ''\<newline>'' @ e
         @ ''\<newline>----------''
         @ ''\<newline>See details below for breakdown of token counts''
         @ ''\<newline>Answer tokens: '' @ str_int (get_token_count openai_service answer)
         @ ''\<newline>Context tokens: '' @ str_int (sum_list (map (get_token_count openai_service) context_list))
         @ ''\<newline>Base prompt tokens: ''
           @ str_int (get_token_count openai_service (answer_consistent_with_context_message answer context_list)
              - sum_list (map (get_token_count openai_service) context_list)
              - get_token_count openai_service answer)
         @ ''\<newline>Total tokens: '' @ str_int (get_token_count openai_service (answer_consistent_with_context_message answer context_list)))))
   \<and> (get_response openai_service (context_relevancy_message question context) = Inl (ContextLengthException e) \<longrightarrow>
    context_relevancy_call question context openai_service =
      Inl (ContextLengthException
        (''Relevance prompt too long to score item. OpenAI returned the following error message''
         @ ''\<newline>----------''
         @ ''\<newline>'' @ e
         @ ''\<newline>----------''
         @ ''\<newline>See details below for breakdown of token counts''
         @ ''\<newline>Question tokens: '' @ str_int (get_token_count openai_service question)
         @ ''\<newline>Context tokens: '' @ str_int (get_token_count openai_service context)
         @ ''\<newline>Base prompt tokens: ''
           @ str_int (get_token_count openai_service (context_relevancy_message question context)
              - get_token_count openai_service question
              - get_token_count openai_service context)
         @ ''\<newline>Total tokens: '' @ str_int (get_token_count openai_service (context_relevancy_message question context)))))
   \<and> (get_response openai_service (answer_contains_context_message answer context) = Inl (ContextLengthException e) \<longrightarrow>
    answer_contains_context_call answer context openai_service =
      Inl (ContextLengthException
        (''Contains context prompt too long to score item. OpenAI returned the following error message''
         @ ''\<newline>----------''
         @ ''\<newline>'' @ e
         @ ''\<newline>----------''
         @ ''\<newline>See details below for breakdown of token counts''
         @ ''\<newline>Answer tokens: '' @ str_int (get_token_count openai_service answer)
         @ ''\<newline>Context tokens: '' @ str_int (get_token_count openai_service context)
         @ ''\<newline>Base prompt tokens: ''
           @ str_int (get_token_count openai_service (answer_contains_context_message answer context)
              - get_token_count openai_service answer
              - get_token_count openai_service context)
         @ ''\<newline>Total tokens: '' @ str_int (get_token_count openai_service (answer_contains_context_message answer context)))))
   \<and> (get_response openai_service (main_points_message answer) = Inl (ContextLengthException e) \<longrightarrow>
    main_points_call answer openai_service =
      Inl (ContextLengthException
        (''Main points prompt too long to score item. OpenAI returned the following error message''
         @ ''\<newline>----------''
         @ ''\<newline>'' @ e
         @ ''\<newline>----------''
         @ ''\<newline>See details below for breakdown of token counts''
         @ ''\<newline>Answer tokens: '' @ str_int (get_token_count openai_service answer)
         @ ''\<newline>Base prompt tokens: ''
           @ str_int (get_token_count openai_service (main_points_message answer)
              - get_token_count openai_service answer)
         @ ''\<newline>Total tokens: '' @ str_int (get_token_count openai_service (main_points_message answer)))))
   \<and> (get_response openai_service (statement_derived_from_context_message statement context_list) = Inl (ContextLengthException e) \<longrightarrow>
    statement_derived_from_context_call statement context_list openai_service =
      Inl (ContextLengthException
        (''Derived from context prompt too long to score item. OpenAI returned the following error message''
         @ ''\<newline>----------''
         @ ''\<newline>'' @ e
         @ ''\<newline>----------''
         @ ''\<newline>See details below for breakdown of token counts''
         @ ''\<newline>Statement tokens: '' @ str_int (get_token_count openai_service statement)
         @ ''\<newline>Context tokens: '' @ str_int (sum_list (map (get_token_count openai_service) context_list))
         @ ''\<newline>Base prompt tokens: ''
           @ str_int (get_token_count openai_service (statement_derived_from_context_message statement context_list)
              - sum_list (map (get_token_count openai_service) context_list)
              - get_token_count openai_service statement)
         @ ''\<newline>Total tokens: '' @ str_int (get_token_count openai_service (statement_derived_from_context_message statement context_list)))))
   \<and> (get_response openai_service (contains_duplicate_information_message statement) = Inl (ContextLengthException e) \<longrightarrow>
    contains_duplicate_information statement openai_service =
      Inl (ContextLengthException
        (''Duplicate information prompt too long to score item. OpenAI returned the following error message''
         @ ''\<newline>----------''
         @ ''\<newline>'' @ e
         @ ''\<newline>----------''
         @ ''\<newline>See details below for breakdown of token counts''
         @ ''\<newline>Statement tokens: '' @ str_int (get_token_count openai_service statement)
         @ ''\<newline>Base prompt tokens: ''
           @ str_int (get_token_count openai_service (contains_duplicate_information_message statement)
              - get_token_count openai_service statement)
         @ ''\<newline>Total tokens: '' @ str_int (get_token_count openai_service (contains_duplicate_information_message statement)))))"
  by (simp add: similarity_score_call_def answer_consistent_with_context_call_def
      context_relevancy_call_def answer_contains_context_call_def main_points_call_def
      statement_derived_from_context_call_def contains_duplicate_information_def
      call_with_breakdown_overflow token_count_message_def
      similarity_score_counts_def answer_consistent_with_context_counts_def
      context_relevancy_counts_def answer_contains_context_counts_def main_points_counts_def
      statement_derived_from_context_counts_def contains_duplicate_information_counts_def
      sum_context_tokens_sum_list Let_def)

theorem context_length_error_reports_breakdown_witness:
  "similarity_score_call ''Q'' ''R'' ''A'' overflowing_service =
      Inl (ContextLengthException
        (''Similarity score prompt too long to score item. OpenAI returned the following error message''
         @ ''\<newline>----------\<newline>maximum context length exceeded\<newline>----------''
         @ ''\<newline>See details below for breakdown of token counts''
         @ ''\<newline>Question tokens: 1''
         @ ''\<newline>Reference answer tokens: 1''
         @ ''\<newline>New answer tokens: 1''
         @ ''\<newline>Base prompt tokens: 316''
         @ ''\<newline>Total tokens: 319''))
   \<and> answer_consistent_with_context_call ''A'' [''a'', ''bbb''] overflowing_service =
      Inl (ContextLengthException
        (''Consistency prompt too long to score item. OpenAI returned the following error message''
         @ ''\<newline>----------\<newline>maximum context length exceeded\<newline>----------''
         @ ''\<newline>See details below for breakdown of token counts''
         @ ''\<newline>Answer tokens: 1''
         @ ''\<newline>Context tokens: 4''
         @ ''\<newline>Base prompt tokens: 484''
         @ ''\<newline>Total tokens: 489''))
   \<and> context_relevancy_call ''Q'' ''C'' overflowing_service =
      Inl (ContextLengthException
        (''Relevance prompt too long to score item. OpenAI returned the following error message''
         @ ''\<newline>----------\<newline>maximum context length exceeded\<newline>----------''
         @ ''\<newline>See details below for breakdown of token counts''
         @ ''\<newline>Question tokens: 1''
         @ ''\<newline>Context tokens: 1''
         @ ''\<newline>Base prompt tokens: 350''
         @ ''\<newline>Total tokens: 352''))
   \<and> answer_contains_context_call ''A'' ''C'' overflowing_service =
      Inl (ContextLengthException
        (''Contains context prompt too long to score item. OpenAI returned the following error message''
         @ ''\<newline>----------\<newline>maximum context length exceeded\<newline>----------''
         @ ''\<newline>See details below for breakdown of token counts''
         @ ''\<newline>Answer tokens: 1''
         @ ''\<newline>Context tokens: 1''
         @ ''\<newline>Base prompt tokens: 368''
         @ ''\<newline>Total tokens: 370''))
   \<and> main_points_call ''A'' overflowing_service =
      Inl (ContextLengthException
        (''Main points prompt too long to score item. OpenAI returned the following error message''
         @ ''\<newline>----------\<newline>maximum context length exceeded\<newline>----------''
         @ ''\<newline>See details below for breakdown of token counts''
         @ ''\<newline>Answer tokens: 1''
         @ ''\<newline>Base prompt tokens: 303''
         @ ''\<newline>Total tokens: 304''))
   \<and> statement_derived_from_context_call ''S'' [''a'', ''bbb''] overflowing_service =
      Inl (ContextLengthException
        (''Derived from context prompt too long to score item. OpenAI returned the following error message''
         @ ''\<newline>----------\<newline>maximum context length exceeded\<newline>----------''
         @ ''\<newline>See details below for breakdown of token counts''
         @ ''\<newline>Statement tokens: 1''
         @ ''\<newline>Context tokens: 4''
         @ ''\<newline>Base prompt tokens: 374''
         @ ''\<newline>Total tokens: 379''))
   \<and> contains_duplicate_information ''S'' overflowing_service =
      Inl (ContextLengthException
        (''Duplicate information prompt too long to score item. OpenAI returned the following error message''
         @ ''\<newline>----------\<newline>maximum context length exceeded\<newline>----------''
         @ ''\<newline>See details below for breakdown of token counts''
         @ ''\<newline>Statement tokens: 1''
         @ ''\<newline>Base prompt tokens: 341''
         @ ''\<newline>Total tokens: 342''))"
proof -
  note breakdown =
    context_length_error_reports_breakdown
      [of overflowing_service "''Q''" "''R''" "''A''" "''maximum context length exceeded''"
        "''A''" "[''a'', ''bbb'']" "''C''" "''S''"]
  have overflow: "get_response overflowing_service main_message
      = Inl (ContextLengthException ''maximum context length exceeded'')" for main_message
    by (simp add: overflowing_service_def)
  have count: "get_token_count overflowing_service s = int (length s)" for s
    by (simp add: overflowing_service_def)
  have total1: "int (length (similarity_score_message ''Q'' ''R'' ''A'')) = 319"
    by code_simp
  have total2: "int (length (answer_consistent_with_context_message ''A'' [''a'', ''bbb''])) = 489"
    by code_simp
  have total3: "int (length (context_relevancy_message ''Q'' ''C'')) = 352"
    by code_simp
  have total4: "int (length (answer_contains_context_message ''A'' ''C'')) = 370"
    by code_simp
  have total5: "int (length (main_points_message ''A'')) = 304"
    by code_simp
  have total6: "int (length (statement_derived_from_context_message ''S'' [''a'', ''bbb''])) = 379"
    by code_simp
  have total7: "int (length (contains_duplicate_information_message ''S'')) = 342"
    by code_simp
  have digits:
    "str_int 1 = ''1''"
    "str_int 4 = ''4''"
    "str_int 303 = ''303''"
    "str_int 304 = ''304''"
    "str_int 316 = ''316''"
    "str_int 319 = ''319''"
    "str_int 341 = ''341''"
    "str_int 342 = ''342''"
    "str_int 350 = ''350''"
    "str_int 352 = ''352''"
    "str_int 368 = ''368''"
    "str_int 370 = ''370''"
    "str_int 374 = ''374''"
    "str_int 379 = ''379''"
    "str_int 484 = ''484''"
    "str_int 489 = ''489''"
    by code_simp+
  have call1: "similarity_score_call ''Q'' ''R'' ''A'' overflowing_service =
      Inl (ContextLengthException
        (''Similarity score prompt too long to score item. OpenAI returned the following error message''
         @ ''\<newline>----------\<newline>maximum context length exceeded\<newline>----------''
         @ ''\<newline>See details below for breakdown of token counts''
         @ ''\<newline>Question tokens: 1''
         @ ''\<newline>Reference answer tokens: 1''
         @ ''\<newline>New answer tokens: 1''
         @ ''\<newline>Base prompt tokens: 316''
         @ ''\<newline>Total tokens: 319''))"
    using breakdown [THEN conjunct1, THEN mp, OF overflow]
    by (simp add: count total1 digits)
  have call2: "answer_consistent_with_context_call ''A'' [''a'', ''bbb''] overflowing_service =
      Inl (ContextLengthException
        (''Consistency prompt too long to score item. OpenAI returned the following error message''
         @ ''\<newline>----------\<newline>maximum context length exceeded\<newline>----------''
         @ ''\<newline>See details below for breakdown of token counts''
         @ ''\<newline>Answer tokens: 1''
         @ ''\<newline>Context tokens: 4''
         @ ''\<newline>Base prompt tokens: 484''
         @ ''\<newline>Total tokens: 489''))"
    using breakdown [THEN conjunct2, THEN conjunct1, THEN mp, OF overflow]
    by (simp add: count total2 digits)
  have call3: "context_relevancy_call ''Q'' ''C'' overflowing_service =
      Inl (ContextLengthException
        (''Relevance prompt too long to score item. OpenAI returned the following error message''
         @ ''\<newline>----------\<newline>maximum context length exceeded\<newline>----------''
         @ ''\<newline>See details below for breakdown of token counts''
         @ ''\<newline>Question tokens: 1''
         @ ''\<newline>Context tokens: 1''
         @ ''\<newline>Base prompt tokens: 350''
         @ ''\<newline>Total tokens: 352''))"
    using breakdown [THEN conjunct2, THEN conjunct2, THEN conjunct1, THEN mp, OF overflow]
    by (simp add: count total3 digits)
  have call4: "answer_contains_context_call ''A'' ''C'' overflowing_service =
      Inl (ContextLengthException
        (''Contains context prompt too long to score item. OpenAI returned the following error message''
         @ ''\<newline>----------\<newline>maximum context length exceeded\<newline>----------''
         @ ''\<newline>See details below for breakdown of token counts''
         @ ''\<newline>Answer tokens: 1''
         @ ''\<newline>Context tokens: 1''
         @ ''\<newline>Base prompt tokens: 368''
         @ ''\<newline>Total tokens: 370''))"
    using breakdown [THEN conjunct2, THEN conjunct2, THEN conjunct2, THEN conjunct1, THEN mp, OF overflow]
    by (simp add: count total4 digits)
  have call5: "main_points_call ''A'' overflowing_service =
      Inl (ContextLengthException
        (''Main points prompt too long to score item. OpenAI returned the following error message''
         @ ''\<newline>----------\<newline>maximum context length exceeded\<newline>----------''
         @ ''\<newline>See details below for breakdown of token counts''
         @ ''\<newline>Answer tokens: 1''
         @ ''\<newline>Base prompt tokens: 303''
         @ ''\<newline>Total tokens: 304''))"
    using breakdown [THEN conjunct2, THEN conjunct2, THEN conjunct2, THEN conjunct2, THEN conjunct1, THEN mp, OF overflow]
    by (simp add: count total5 digits)
  have call6: "statement_derived_from_context_call ''S'' [''a'', ''bbb''] overflowing_service =
      Inl (ContextLengthException
        (''Derived from context prompt too long to score item. OpenAI returned the following error message''
         @ ''\<newline>----------\<newline>maximum context length exceeded\<newline>----------''
         @ ''\<newline>See details below for breakdown of token counts''
         @ ''\<newline>Statement tokens: 1''
         @ ''\<newline>Context tokens: 4''
         @ ''\<newline>Base prompt tokens: 374''
         @ ''\<newline>Total tokens: 379''))"
    using breakdown [THEN conjunct2, THEN conjunct2, THEN conjunct2, THEN conjunct2, THEN conjunct2, THEN conjunct1, THEN mp, OF overflow]
    by (simp add: count total6 digits)
  have call7: "contains_duplicate_information ''S'' overflowing_service =
      Inl (ContextLengthException
        (''Duplicate information prompt too long to score item. OpenAI returned the following error message''
         @ ''\<newline>----------\<newline>maximum context length exceeded\<newline>----------''
         @ ''\<newline>See details below for breakdown of token counts''
         @ ''\<newline>Statement tokens: 1''
         @ ''\<newline>Base prompt tokens: 341''
         @ ''\<newline>Total tokens: 342''))"
    using breakdown [THEN conjunct2, THEN conjunct2, THEN conjunct2, THEN conjunct2, THEN conjunct2, THEN conjunct2, THEN mp, OF overflow]
    by (simp add: count total7 digits)
  from call1 call2 call3 call4 call5 call6 call7 show ?thesis
    by (intro conjI)
qed

text \<open>
  Counterexample to claim C1 as stated. The consistency breakdown has one
  \<open>Context tokens\<close> line for the whole list and no count per \<open>CONTEXT i\<close>: the
  context lists \<open>[a, bbb]\<close> and \<open>[aa, bb]\<close>, whose entries have different token
  counts, raise the same error with the same message.
\<close>

theorem breakdown_has_no_count_per_context:
  "answer_consistent_with_context_call ''A'' [''a'', ''bbb''] overflowing_service =
     Inl (ContextLengthException
       (''Consistency prompt too long to score item. OpenAI returned the following error message''
        @ ''\<newline>----------\<newline>maximum context length exceeded\<newline>----------''
        @ ''\<newline>See details below for breakdown of token counts''
        @ ''\<newline>Answer tokens: 1''
        @ ''\<newline>Context tokens: 4''
        @ ''\<newline>Base prompt tokens: 484''
        @ ''\<newline>Total tokens: 489''))
   \<and> answer_consistent_with_context_call ''A'' [''aa'', ''bb''] overflowing_service =
       answer_consistent_with_context_call ''A'' [''a'', ''bbb''] overflowing_service
   \<and> get_token_count overflowing_service ''aa'' \<noteq> get_token_count overflowing_service ''a''
   \<and> get_token_count overflowing_service ''bb'' \<noteq> get_token_count overflowing_service ''bbb''"
  by code_simp

subsection \<open>The PII metric\<close>

text \<open>
  Claim C3. For a metric constructed for any list of requested PII types, and any list
  of detected entities the redaction collaborator returns for the joined context text,
  the score is 1.0 (true) exactly when the lowercased label of some detected entity is
  one of the lowercased requested types, and 0.0 (false) exactly when none is. The match
  is equality of the lowercased strings, where lowercasing is \<open>str.lower()\<close>, the
  parameter \<open>lower\<close>: the statement holds whatever that function maps each string to.
\<close>

theorem pii_score_iff_requested_label_detected:
  assumes "answer_contains_pii_metric_init lower TonicTextual env_api_key requested
             textual_api_key = Inr self"
    and "textual self (str_join ''\<newline>'' (llm_context_list response)) = Inr redacted"
  shows "(metric_callback lower self response openai_service = Inr 1 \<longleftrightarrow>
            (\<exists>d \<in> set (de_identify_results redacted).
               lower (label d) \<in> set (map lower requested)))
       \<and> (metric_callback lower self response openai_service = Inr 0 \<longleftrightarrow>
            \<not> (\<exists>d \<in> set (de_identify_results redacted).
                 lower (label d) \<in> set (map lower requested)))"
proof -
  from assms(1) have "pii_types self = map lower requested"
    by (rule init_pii_types)
  with assms(2) have "metric_callback lower self response openai_service =
      Inr (if \<exists>d \<in> set (de_identify_results redacted).
                lower (label d) \<in> set (map lower requested) then 1 else 0)"
    by (simp add: metric_callback_def scan_labels_iff)
  then show ?thesis
    by simp
qed

theorem pii_score_iff_requested_label_detected_witness:
  "metric_callback ascii_lower
     \<lparr>pii_types = [''email''],
      textual = detecting_textual [''Email'', ''Name''] ''https://textual.tonic.ai'' None\<rparr>
     \<lparr>llm_answer = ''ok'', llm_context_list = [''ann@example.org'', ''Ann'']\<rparr>
     (answering_service ''true'') = Inr 1
   \<and> metric_callback ascii_lower
     \<lparr>pii_types = [''email''],
      textual = detecting_textual [''Name''] ''https://textual.tonic.ai'' None\<rparr>
     \<lparr>llm_answer = ''ok'', llm_context_list = [''ann@example.org'', ''Ann'']\<rparr>
     (answering_service ''true'') = Inr 0"
proof -
  let ?response = "\<lparr>llm_answer = ''ok'', llm_context_list = [''ann@example.org'', ''Ann'']\<rparr>"
  have lowered: "ascii_lower ''email'' = ''email''" "ascii_lower ''Email'' = ''email''"
    "ascii_lower ''Name'' = ''name''"
    by code_simp+
  have init: "answer_contains_pii_metric_init ascii_lower (detecting_textual labels)
        (Some ''key'') [''email''] None
      = Inr \<lparr>pii_types = [''email''],
             textual = detecting_textual labels ''https://textual.tonic.ai'' None\<rparr>" for labels
    by (simp add: answer_contains_pii_metric_init_def lowered)
  have redact: "textual
        \<lparr>pii_types = [''email''],
         textual = detecting_textual labels ''https://textual.tonic.ai'' None\<rparr>
        (str_join ''\<newline>'' (llm_context_list ?response))
      = Inr \<lparr>de_identify_results = map (\<lambda>l. \<lparr>label = l\<rparr>) labels\<rparr>" for labels
    by (simp add: detecting_textual_def)
  have found: "metric_callback ascii_lower
     \<lparr>pii_types = [''email''],
      textual = detecting_textual [''Email'', ''Name''] ''https://textual.tonic.ai'' None\<rparr>
     ?response (answering_service ''true'') = Inr 1"
    using pii_score_iff_requested_label_detected [OF init redact, THEN conjunct1]
    by (simp add: lowered)
  have clean: "metric_callback ascii_lower
     \<lparr>pii_types = [''email''],
      textual = detecting_textual [''Name''] ''https://textual.tonic.ai'' None\<rparr>
     ?response (answering_service ''true'') = Inr 0"
    using pii_score_iff_requested_label_detected [OF init redact, THEN conjunct2]
    by (simp add: lowered)
  from found clean show ?thesis
    by (intro conjI)
qed

text \<open>
  Claim C4. When the call to the redaction collaborator raises, whatever the exception,
  the scoring call raises a \<open>ValueError\<close> to its caller; it returns no score, neither
  0.0 nor any other.
\<close>

theorem pii_redaction_failure_is_raised:
  assumes "textual self (str_join ''\<newline>'' (llm_context_list response)) = Inl e"
  shows "metric_callback lower self response openai_service =
           Inl (ValueError (''Cannot compute AnswerContainsPiiMetric. Error occured ''
             @ ''communicating with Textual.  Please try again later or reach out via ''
             @ ''GitHub issues.''))
       \<and> (\<forall>score. metric_callback lower self response openai_service \<noteq> Inr score)"
  using assms by (simp add: metric_callback_def)

theorem pii_redaction_failure_is_raised_witness:
  "metric_callback ascii_lower
     \<lparr>pii_types = [''email''], textual = failing_textual ''https://textual.tonic.ai'' None\<rparr>
     \<lparr>llm_answer = ''ok'', llm_context_list = [''ann@example.org'']\<rparr>
     (answering_service ''true'') =
       Inl (ValueError (''Cannot compute AnswerContainsPiiMetric. Error occured ''
             @ ''communicating with Textual.  Please try again later or reach out via ''
             @ ''GitHub issues.''))
   \<and> metric_callback ascii_lower
     \<lparr>pii_types = [''email''], textual = failing_textual ''https://textual.tonic.ai'' None\<rparr>
     \<lparr>llm_answer = ''ok'', llm_context_list = [''ann@example.org'']\<rparr>
     (answering_service ''true'') \<noteq> Inr 0"
proof -
  have fails: "textual
      \<lparr>pii_types = [''email''], textual = failing_textual ''https://textual.tonic.ai'' None\<rparr>
      (str_join ''\<newline>''
        (llm_context_list \<lparr>llm_answer = ''ok'', llm_context_list = [''ann@example.org'']\<rparr>))
      = Inl (OtherException ''connection refused'')"
    by (simp add: failing_textual_def)
  note raised =
    pii_redaction_failure_is_raised
      [OF fails, where lower = ascii_lower and openai_service = "answering_service ''true''"]
  from raised [THEN conjunct1] raised [THEN conjunct2, rule_format, of 0]
  show ?thesis
    by (intro conjI)
qed

text \<open>
  Claim C10. The score is a function of the requested PII types, the redaction client
  and the context list only. Two responses with the same context list get the same
  result, whatever their answers and whatever the LLM service; replacing the answer of
  a response does not change the result; and the redaction client is consulted on one
  text only, the entries of the context list joined by single newlines: two metrics
  with the same requested types whose clients agree on that text give the same result.
\<close>

theorem pii_score_ignores_answer:
  "(llm_context_list response1 = llm_context_list response2 \<longrightarrow>
      metric_callback lower self response1 service1 = metric_callback lower self response2 service2)
   \<and> metric_callback lower self (response\<lparr>llm_answer := other_answer\<rparr>) service1
       = metric_callback lower self response service1
   \<and> (pii_types self = pii_types self'
        \<and> textual self (str_join ''\<newline>'' (llm_context_list response))
            = textual self' (str_join ''\<newline>'' (llm_context_list response)) \<longrightarrow>
      metric_callback lower self response service1 = metric_callback lower self' response service2)
   \<and> str_join ''\<newline>'' [] = ''''
   \<and> str_join ''\<newline>'' (entry # entries)
       = entry @ concat (map (\<lambda>c. ''\<newline>'' @ c) entries)"
proof -
  have same_list: "metric_callback lower self response1 service1 = metric_callback lower self response2 service2"
    if "llm_context_list response1 = llm_context_list response2"
    using that by (simp add: metric_callback_def)
  have same_answer: "metric_callback lower self (response\<lparr>llm_answer := other_answer\<rparr>) service1
       = metric_callback lower self response service1"
    by (simp add: metric_callback_def)
  have same_text: "metric_callback lower self response service1 = metric_callback lower self' response service2"
    if "pii_types self = pii_types self'
        \<and> textual self (str_join ''\<newline>'' (llm_context_list response))
            = textual self' (str_join ''\<newline>'' (llm_context_list response))"
    using that by (simp add: metric_callback_def split: sum.splits)
  have joined: "str_join sep (c # cs) = c @ concat (map (\<lambda>c. sep @ c) cs)" for sep c cs
    by (induction cs arbitrary: c) simp_all
  from same_list same_answer same_text joined [of "''\<newline>''" entry entries]
  show ?thesis
    by simp
qed

theorem pii_score_ignores_answer_witness:
  "metric_callback ascii_lower
     \<lparr>pii_types = [''email_address''], textual = at_sign_textual ''https://textual.tonic.ai'' None\<rparr>
     \<lparr>llm_answer = ''Write to ann@example.org'', llm_context_list = [''Ann lives in Oslo'']\<rparr>
     (answering_service ''true'')
   = metric_callback ascii_lower
     \<lparr>pii_types = [''email_address''], textual = at_sign_textual ''https://textual.tonic.ai'' None\<rparr>
     \<lparr>llm_answer = ''I cannot say'', llm_context_list = [''Ann lives in Oslo'']\<rparr>
     overflowing_service
   \<and> str_join ''\<newline>'' [''a'', ''b'', ''c''] = ''a\<newline>b\<newline>c''"
proof -
  note ignores =
    pii_score_ignores_answer
      [of "\<lparr>llm_answer = ''Write to ann@example.org'', llm_context_list = [''Ann lives in Oslo'']\<rparr>"
        "\<lparr>llm_answer = ''I cannot say'', llm_context_list = [''Ann lives in Oslo'']\<rparr>"
        ascii_lower
        "\<lparr>pii_types = [''email_address''],
          textual = at_sign_textual ''https://textual.tonic.ai'' None\<rparr>"
        "answering_service ''true''" overflowing_service _ _ _ "''a''" "[''b'', ''c'']"]
  have same: "llm_context_list
        \<lparr>llm_answer = ''Write to ann@example.org'', llm_context_list = [''Ann lives in Oslo'']\<rparr>
      = llm_context_list
        \<lparr>llm_answer = ''I cannot say'', llm_context_list = [''Ann lives in Oslo'']\<rparr>"
    by simp
  have joined: "str_join ''\<newline>'' [''a'', ''b'', ''c''] = ''a\<newline>b\<newline>c''"
    using ignores [THEN conjunct2, THEN conjunct2, THEN conjunct2, THEN conjunct2]
    by simp
  from ignores [THEN conjunct1, THEN mp, OF same] joined show ?thesis
    by (intro conjI)
qed

subsection \<open>The two template modules\<close>

text \<open>
  Counterexample to claim C8 as stated: on the same inputs the similarity prompts of
  the two modules differ (the older instruction text says \<open>not similar\<close>, the newer
  one \<open>not at all similar\<close>).
\<close>

theorem similarity_prompts_differ:
  "ask_for_similarity_score_message ''Q'' ''R'' ''A'' \<noteq> similarity_score_message ''Q'' ''R'' ''A''"
  by code_simp

text \<open>
  Claim C8, amended. For each of the six tasks both modules have, and for every input,
  each module's prompt is its own fixed instruction text followed by the same
  input-dependent text: the same labels and separators, and the same numbered context
  blocks in the same order. The instruction texts of the two modules differ for
  Similarity, Consistency, Relevance, Containment and MainPoints and are equal for
  Derivation, so the Derivation prompts are equal as text.
\<close>

theorem modules_share_prompt_structure:
  "ask_for_similarity_score_message question reference_answer new_answer =
     ask_for_similarity_score_instructions
       @ ''\<newline>QUESTION: '' @ question @ ''\<newline>REFERENCE ANSWER: '' @ reference_answer
       @ ''\<newline>NEW ANSWER: '' @ new_answer @ ''\<newline>''
   \<and> similarity_score_message question reference_answer new_answer =
     similarity_score_instructions
       @ ''\<newline>QUESTION: '' @ question @ ''\<newline>REFERENCE ANSWER: '' @ reference_answer
       @ ''\<newline>NEW ANSWER: '' @ new_answer @ ''\<newline>''
   \<and> ask_whether_answer_is_consistent_with_context_message answer context_list =
     ask_whether_answer_is_consistent_with_context_instructions
       @ concat (map (\<lambda>block. ''\<newline>\<newline>'' @ block) (spec_context_blocks context_list))
       @ ''\<newline>\<newline>ANSWER: '' @ answer
   \<and> answer_consistent_with_context_message answer context_list =
     answer_consistent_with_context_instructions
       @ concat (map (\<lambda>block. ''\<newline>\<newline>'' @ block) (spec_context_blocks context_list))
       @ ''\<newline>\<newline>ANSWER: '' @ answer
   \<and> ask_whether_context_is_relevant_message question context =
     ask_whether_context_is_relevant_instructions
       @ ''\<newline>QUESTION: '' @ question @ ''\<newline>CONTEXT: '' @ context @ ''\<newline>''
   \<and> context_relevancy_message question context =
     context_relevancy_instructions
       @ ''\<newline>QUESTION: '' @ question @ ''\<newline>CONTEXT: '' @ context @ ''\<newline>''
   \<and> ask_whether_answer_contains_context_message answer context =
     ask_whether_answer_contains_context_instructions
       @ ''\<newline>ANSWER: '' @ answer @ ''\<newline>CONTEXT: '' @ context @ ''\<newline>''
   \<and> answer_contains_context_message answer context =
     answer_contains_context_instructions
       @ ''\<newline>ANSWER: '' @ answer @ ''\<newline>CONTEXT: '' @ context @ ''\<newline>''
   \<and> ask_for_main_points_message answer =
     ask_for_main_points_instructions @ ''\<newline>ANSWER: '' @ answer
   \<and> main_points_message answer =
     main_points_instructions @ ''\<newline>ANSWER: '' @ answer
   \<and> ask_whether_statement_derived_from_context_message statement context_list =
     ask_whether_statement_derived_from_context_instructions
       @ ''\<newline>\<newline>STATEMENT:\<newline>'' @ statement @ ''\<newline>END OF STATEMENT''
       @ concat (map (\<lambda>block. ''\<newline>\<newline>'' @ block) (spec_context_blocks context_list))
   \<and> statement_derived_from_context_message statement context_list =
     statement_derived_from_context_instructions
       @ ''\<newline>\<newline>STATEMENT:\<newline>'' @ statement @ ''\<newline>END OF STATEMENT''
       @ concat (map (\<lambda>block. ''\<newline>\<newline>'' @ block) (spec_context_blocks context_list))
   \<and> ask_whether_statement_derived_from_context_message statement context_list =
     statement_derived_from_context_message statement context_list
   \<and> ask_for_similarity_score_instructions \<noteq> similarity_score_instructions
   \<and> ask_whether_answer_is_consistent_with_context_instructions
       \<noteq> answer_consistent_with_context_instructions
   \<and> ask_whether_context_is_relevant_instructions \<noteq> context_relevancy_instructions
   \<and> ask_whether_answer_contains_context_instructions \<noteq> answer_contains_context_instructions
   \<and> ask_for_main_points_instructions \<noteq> main_points_instructions"
proof -
  have similarity:
    "ask_for_similarity_score_message question reference_answer new_answer =
       ask_for_similarity_score_instructions
         @ ''\<newline>QUESTION: '' @ question @ ''\<newline>REFERENCE ANSWER: '' @ reference_answer
         @ ''\<newline>NEW ANSWER: '' @ new_answer @ ''\<newline>''"
    "similarity_score_message question reference_answer new_answer =
       similarity_score_instructions
         @ ''\<newline>QUESTION: '' @ question @ ''\<newline>REFERENCE ANSWER: '' @ reference_answer
         @ ''\<newline>NEW ANSWER: '' @ new_answer @ ''\<newline>''"
    by (simp_all add: ask_for_similarity_score_message_def similarity_score_message_def Let_def)
  have consistency:
    "ask_whether_answer_is_consistent_with_context_message answer context_list =
       ask_whether_answer_is_consistent_with_context_instructions
         @ concat (map (\<lambda>block. ''\<newline>\<newline>'' @ block) (spec_context_blocks context_list))
         @ ''\<newline>\<newline>ANSWER: '' @ answer"
    "answer_consistent_with_context_message answer context_list =
       answer_consistent_with_context_instructions
         @ concat (map (\<lambda>block. ''\<newline>\<newline>'' @ block) (spec_context_blocks context_list))
         @ ''\<newline>\<newline>ANSWER: '' @ answer"
    by (simp_all add: ask_whether_answer_is_consistent_with_context_message_def
        answer_consistent_with_context_message_def Let_def append_contexts_blocks)
  have relevance:
    "ask_whether_context_is_relevant_message question context =
       ask_whether_context_is_relevant_instructions
         @ ''\<newline>QUESTION: '' @ question @ ''\<newline>CONTEXT: '' @ context @ ''\<newline>''"
    "context_relevancy_message question context =
       context_relevancy_instructions
         @ ''\<newline>QUESTION: '' @ question @ ''\<newline>CONTEXT: '' @ context @ ''\<newline>''"
    by (simp_all add: ask_whether_context_is_relevant_message_def
        context_relevancy_message_def Let_def)
  have containment:
    "ask_whether_answer_contains_context_message answer context =
       ask_whether_answer_contains_context_instructions
         @ ''\<newline>ANSWER: '' @ answer @ ''\<newline>CONTEXT: '' @ context @ ''\<newline>''"
    "answer_contains_context_message answer context =
       answer_contains_context_instructions
         @ ''\<newline>ANSWER: '' @ answer @ ''\<newline>CONTEXT: '' @ context @ ''\<newline>''"
    by (simp_all add: ask_whether_answer_contains_context_message_def
        answer_contains_context_message_def Let_def)
  have main_points:
    "ask_for_main_points_message answer =
       ask_for_main_points_instructions @ ''\<newline>ANSWER: '' @ answer"
    "main_points_message answer = main_points_instructions @ ''\<newline>ANSWER: '' @ answer"
    by (simp_all add: ask_for_main_points_message_def main_points_message_def Let_def)
  have derivation:
    "ask_whether_statement_derived_from_context_message statement context_list =
       ask_whether_statement_derived_from_context_instructions
         @ ''\<newline>\<newline>STATEMENT:\<newline>'' @ statement @ ''\<newline>END OF STATEMENT''
         @ concat (map (\<lambda>block. ''\<newline>\<newline>'' @ block) (spec_context_blocks context_list))"
    "statement_derived_from_context_message statement context_list =
       statement_derived_from_context_instructions
         @ ''\<newline>\<newline>STATEMENT:\<newline>'' @ statement @ ''\<newline>END OF STATEMENT''
         @ concat (map (\<lambda>block. ''\<newline>\<newline>'' @ block) (spec_context_blocks context_list))"
    by (simp_all add: ask_whether_statement_derived_from_context_message_def
        statement_derived_from_context_message_def Let_def append_contexts_blocks)
  have same_instructions:
    "ask_whether_statement_derived_from_context_instructions
       = statement_derived_from_context_instructions"
    by code_simp
  with derivation
  have derivation_equal:
    "ask_whether_statement_derived_from_context_message statement context_list =
       statement_derived_from_context_message statement context_list"
    by simp
  have different_instructions:
    "ask_for_similarity_score_instructions \<noteq> similarity_score_instructions"
    "ask_whether_answer_is_consistent_with_context_instructions
       \<noteq> answer_consistent_with_context_instructions"
    "ask_whether_context_is_relevant_instructions \<noteq> context_relevancy_instructions"
    "ask_whether_answer_contains_context_instructions \<noteq> answer_contains_context_instructions"
    "ask_for_main_points_instructions \<noteq> main_points_instructions"
    by code_simp+
  from similarity consistency relevance containment main_points derivation
    derivation_equal different_instructions
  show ?thesis
    by (intro conjI)
qed

subsection \<open>Determinism of prompt building\<close>

text \<open>
  Claim C9. Prompt building is deterministic: each builder of either module is a
  function of its input fields alone, so two runs on equal inputs give the same prompt
  text. The service takes no part in it: whatever its model name and token counter, a
  service that hands back the text it receives hands back the builder's text.
\<close>

theorem prompt_building_is_deterministic:
  "(question1 = question2 \<and> reference1 = reference2 \<and> answer1 = answer2 \<longrightarrow>
      similarity_score_message question1 reference1 answer1
        = similarity_score_message question2 reference2 answer2
      \<and> ask_for_similarity_score_message question1 reference1 answer1
        = ask_for_similarity_score_message question2 reference2 answer2)
   \<and> (answer1 = answer2 \<and> context_list1 = context_list2 \<longrightarrow>
      answer_consistent_with_context_message answer1 context_list1
        = answer_consistent_with_context_message answer2 context_list2
      \<and> ask_whether_answer_is_consistent_with_context_message answer1 context_list1
        = ask_whether_answer_is_consistent_with_context_message answer2 context_list2)
   \<and> (question1 = question2 \<and> context1 = context2 \<longrightarrow>
      context_relevancy_message question1 context1
        = context_relevancy_message question2 context2
      \<and> ask_whether_context_is_relevant_message question1 context1
        = ask_whether_context_is_relevant_message question2 context2)
   \<and> (answer1 = answer2 \<and> context1 = context2 \<longrightarrow>
      answer_contains_context_message answer1 context1
        = answer_contains_context_message answer2 context2
      \<and> ask_whether_answer_contains_context_message answer1 context1
        = ask_whether_answer_contains_context_message answer2 context2)
   \<and> (answer1 = answer2 \<longrightarrow>
      main_points_message answer1 = main_points_message answer2
      \<and> ask_for_main_points_message answer1 = ask_for_main_points_message answer2)
   \<and> (statement1 = statement2 \<and> context_list1 = context_list2 \<longrightarrow>
      statement_derived_from_context_message statement1 context_list1
        = statement_derived_from_context_message statement2 context_list2
      \<and> ask_whether_statement_derived_from_context_message statement1 context_list1
        = ask_whether_statement_derived_from_context_message statement2 context_list2)
   \<and> (statement1 = statement2 \<longrightarrow>
      contains_duplicate_information_message statement1
        = contains_duplicate_information_message statement2)
   \<and> similarity_score_call question1 reference1 answer1 (service\<lparr>get_response := Inr\<rparr>)
       = Inr (similarity_score_message question1 reference1 answer1)
   \<and> answer_consistent_with_context_call answer1 context_list1 (service\<lparr>get_response := Inr\<rparr>)
       = Inr (answer_consistent_with_context_message answer1 context_list1)
   \<and> context_relevancy_call question1 context1 (service\<lparr>get_response := Inr\<rparr>)
       = Inr (context_relevancy_message question1 context1)
   \<and> answer_contains_context_call answer1 context1 (service\<lparr>get_response := Inr\<rparr>)
       = Inr (answer_contains_context_message answer1 context1)
   \<and> main_points_call answer1 (service\<lparr>get_response := Inr\<rparr>)
       = Inr (main_points_message answer1)
   \<and> statement_derived_from_context_call statement1 context_list1
         (service\<lparr>get_response := Inr\<rparr>)
       = Inr (statement_derived_from_context_message statement1 context_list1)
   \<and> contains_duplicate_information statement1 (service\<lparr>get_response := Inr\<rparr>)
       = Inr (contains_duplicate_information_message statement1)"
  by (simp add: similarity_score_call_def answer_consistent_with_context_call_def
      context_relevancy_call_def answer_contains_context_call_def main_points_call_def
      statement_derived_from_context_call_def contains_duplicate_information_def
      call_with_breakdown_def)

theorem prompt_building_is_deterministic_witness:
  "similarity_score_message (''What is '' @ ''the capital of France?'') ''Paris''
       ''The capital is Paris.''
     = similarity_score_message ''What is the capital of France?'' (''Par'' @ ''is'')
         ''The capital is Paris.''
   \<and> answer_consistent_with_context_message ''Paris'' ([''France''] @ [''Its capital is Paris''])
     = answer_consistent_with_context_message ''Paris'' [''France'', ''Its capital is Paris'']
   \<and> similarity_score_call ''Q'' ''R'' ''A'' (overflowing_service\<lparr>get_response := Inr\<rparr>)
     = similarity_score_call ''Q'' ''R'' ''A'' (answering_service ''5''\<lparr>get_response := Inr\<rparr>)"
proof -
  have inputs: "''What is '' @ ''the capital of France?'' = ''What is the capital of France?''
      \<and> ''Paris'' = ''Par'' @ ''is'' \<and> ''The capital is Paris.'' = ''The capital is Paris.''"
    by simp
  have lists: "''Paris'' = ''Paris''
      \<and> [''France''] @ [''Its capital is Paris''] = [''France'', ''Its capital is Paris'']"
    by simp
  note first_run =
    prompt_building_is_deterministic
      [of "''What is '' @ ''the capital of France?''" "''What is the capital of France?''"
        "''Paris''" "''Par'' @ ''is''" "''The capital is Paris.''" "''The capital is Paris.''"]
  note second_run =
    prompt_building_is_deterministic
      [of "''Q''" "''Q''" "''R''" "''R''" "''Paris''" "''Paris''"
        "[''France''] @ [''Its capital is Paris'']" "[''France'', ''Its capital is Paris'']"]
  have similarity: "similarity_score_message (''What is '' @ ''the capital of France?'') ''Paris''
       ''The capital is Paris.''
     = similarity_score_message ''What is the capital of France?'' (''Par'' @ ''is'')
         ''The capital is Paris.''"
    using first_run [THEN conjunct1, THEN mp, OF inputs, THEN conjunct1] .
  have consistency:
    "answer_consistent_with_context_message ''Paris'' ([''France''] @ [''Its capital is Paris''])
     = answer_consistent_with_context_message ''Paris'' [''France'', ''Its capital is Paris'']"
    using second_run [THEN conjunct2, THEN conjunct1, THEN mp, OF lists, THEN conjunct1] .
  have echo: "similarity_score_call ''Q'' ''R'' ''A'' (s\<lparr>get_response := Inr\<rparr>)
      = Inr (similarity_score_message ''Q'' ''R'' ''A'')" for s
    by (rule prompt_building_is_deterministic
        [THEN conjunct2, THEN conjunct2, THEN conjunct2, THEN conjunct2, THEN conjunct2,
          THEN conjunct2, THEN conjunct2, THEN conjunct1])
  from similarity consistency echo [of overflowing_service] echo [of "answering_service ''5''"]
  show ?thesis
    by simp
qed

end
